theory Spec2Isabelle
  imports Complex_Main "HOL-Library.AList"
begin

section \<open>Strings as the query code uses them\<close>

text \<open>
  Queries are Python \<open>str\<close> values; they are modelled as \<open>string\<close> (a list of 8-bit
  characters) and the character classes below are those of ASCII text: characters
  outside ASCII are treated as neither letters, digits nor white space.
  Python floats are modelled as exact rationals (\<open>rat\<close>): every float the modelled code
  compares comes from a short decimal literal, a sum of the weights 0.3 and 0.5, or an
  item field, and the comparisons the code makes agree with the exact ones there. A
  decimal literal too large for a float is \<open>inf\<close> in Python; the model keeps its exact
  value.
\<close>

datatype exn = ZeroDivisionError | ValueError | Raised string | Base_raised string

text \<open>
  The exceptions of the model. \<open>Raised msg\<close> is an exception \<open>e\<close> of a subclass of
  \<open>Exception\<close> with \<open>str(e) = msg\<close>, raised by a collaborator; \<open>Base_raised name\<close> is
  an exception that derives from \<open>BaseException\<close> but not from \<open>Exception\<close>
  (\<open>SystemExit\<close>, \<open>KeyboardInterrupt\<close>, \<open>GeneratorExit\<close>).
\<close>

definition is_space :: "char \<Rightarrow> bool" where
  \<comment> \<open>\<open>\s\<close> and \<open>str.isspace\<close> on ASCII: TAB, LF, VT, FF, CR, FS, GS, RS, US and the blank.\<close>
  "is_space c \<longleftrightarrow>
     c \<in> set [CHR '' '', CHR 0x09, CHR 0x0A, CHR 0x0B, CHR 0x0C, CHR 0x0D,
               CHR 0x1C, CHR 0x1D, CHR 0x1E, CHR 0x1F]"

definition is_digit :: "char \<Rightarrow> bool" where
  \<comment> \<open>\<open>\d\<close> on ASCII.\<close>
  "is_digit c \<longleftrightarrow> c \<in> set ''0123456789''"

definition is_word_char :: "char \<Rightarrow> bool" where
  \<comment> \<open>\<open>\w\<close> on ASCII: letters, digits and the underscore.\<close>
  "is_word_char c \<longleftrightarrow>
     c \<in> set ''abcdefghijklmnopqrstuvwxyzABCDEFGHIJKLMNOPQRSTUVWXYZ0123456789_''"

definition lower_char :: "char \<Rightarrow> char" where
  "lower_char c =
     (case map_of (zip ''ABCDEFGHIJKLMNOPQRSTUVWXYZ'' ''abcdefghijklmnopqrstuvwxyz'') c of
        Some d \<Rightarrow> d | None \<Rightarrow> c)"

definition upper_char :: "char \<Rightarrow> char" where
  "upper_char c =
     (case map_of (zip ''abcdefghijklmnopqrstuvwxyz'' ''ABCDEFGHIJKLMNOPQRSTUVWXYZ'') c of
        Some d \<Rightarrow> d | None \<Rightarrow> c)"

definition lower :: "string \<Rightarrow> string" where
  \<comment> \<open>\<open>str.lower\<close>\<close>
  "lower s = map lower_char s"

definition upper :: "string \<Rightarrow> string" where
  \<comment> \<open>\<open>str.upper\<close>\<close>
  "upper s = map upper_char s"

definition strip :: "string \<Rightarrow> string" where
  \<comment> \<open>\<open>str.strip()\<close>: white space removed at both ends.\<close>
  "strip s = rev (dropWhile is_space (rev (dropWhile is_space s)))"

definition capitalize :: "string \<Rightarrow> string" where
  \<comment> \<open>\<open>str.capitalize\<close>: first character upper-cased, the rest lower-cased.\<close>
  "capitalize s = (case s of [] \<Rightarrow> [] | c # t \<Rightarrow> upper_char c # lower t)"

fun starts_with :: "string \<Rightarrow> string \<Rightarrow> bool" where
  \<comment> \<open>\<open>starts_with w s\<close>: \<open>s.startswith(w)\<close>\<close>
  "starts_with [] s = True"
| "starts_with (a # w) [] = False"
| "starts_with (a # w) (b # s) = (a = b \<and> starts_with w s)"

fun contains :: "string \<Rightarrow> string \<Rightarrow> bool" where
  \<comment> \<open>\<open>contains s w\<close>: Python's \<open>w in s\<close> on strings.\<close>
  "contains [] w = starts_with w []"
| "contains (c # s) w = (starts_with w (c # s) \<or> contains s w)"

fun replace_from :: "string \<Rightarrow> nat \<Rightarrow> string \<Rightarrow> string" where
  \<comment> \<open>The scan of \<open>str.replace(w, '')\<close>; the number counts the characters of an
      occurrence of \<open>w\<close> still to be dropped.\<close>
  "replace_from w k [] = []"
| "replace_from w k (c # s) =
     (if 0 < k then replace_from w (k - 1) s
      else if starts_with w (c # s) then replace_from w (length w - 1) s
      else c # replace_from w 0 s)"

definition remove_all :: "string \<Rightarrow> string \<Rightarrow> string" where
  \<comment> \<open>\<open>remove_all w s\<close>: \<open>s.replace(w, '')\<close> for a non-empty \<open>w\<close>.\<close>
  "remove_all w s = replace_from w 0 s"

definition digit_val :: "char \<Rightarrow> nat" where
  "digit_val c = (case map_of (zip ''0123456789'' [0, 1, 2, 3, 4, 5, 6, 7, 8, 9]) c of
                    Some d \<Rightarrow> d | None \<Rightarrow> 0)"

definition digits_value :: "string \<Rightarrow> nat" where
  \<comment> \<open>The number that a string of decimal digits denotes.\<close>
  "digits_value s = fold (\<lambda>c n. 10 * n + digit_val c) s 0"

definition int_max_str_digits :: nat where
  \<comment> \<open>The default of \<open>sys.get_int_max_str_digits()\<close> (CPython 3.11, and the security
      releases of 3.7 to 3.10).\<close>
  "int_max_str_digits = 4300"

definition py_int :: "string \<Rightarrow> exn + nat" where
  \<comment> \<open>\<open>int(s)\<close> on a string matched by \<open>\d+\<close>: a string of more digits than the
      limit (leading zeros count) raises \<open>ValueError\<close>.\<close>
  "py_int s = (if int_max_str_digits < length s then Inl ValueError else Inr (digits_value s))"

definition float_of_decimal :: "string \<Rightarrow> rat" where
  \<comment> \<open>\<open>float(s)\<close> on a string matched by \<open>\d+(\.\d+)?\<close>, as the exact decimal.\<close>
  "float_of_decimal s =
     (let ip = takeWhile is_digit s; fp = drop (Suc (length ip)) s
      in of_nat (digits_value ip) + of_nat (digits_value fp) / 10 ^ length fp)"

fun tokens_of :: "(char \<Rightarrow> bool) \<Rightarrow> string \<Rightarrow> string \<Rightarrow> string list" where
  \<comment> \<open>The maximal runs of characters of a class, left to right; the second argument
      is the run being read.\<close>
  "tokens_of p cur [] = (if cur = [] then [] else [cur])"
| "tokens_of p cur (c # s) =
     (if p c then tokens_of p (cur @ [c]) s
      else if cur = [] then tokens_of p [] s
      else cur # tokens_of p [] s)"

definition word_tokens :: "string \<Rightarrow> string list" where
  \<comment> \<open>\<open>re.findall(r'\b\w+\b', s)\<close>\<close>
  "word_tokens s = tokens_of is_word_char [] s"

definition split_ws :: "string \<Rightarrow> string list" where
  \<comment> \<open>\<open>s.split()\<close>\<close>
  "split_ws s = tokens_of (\<lambda>c. \<not> is_space c) [] s"

section \<open>Regular expressions of the patterns\<close>

text \<open>
  The patterns of the classifier and of the extractor use literals, the classes \<open>\s\<close>
  and \<open>\d\<close>, \<open>+\<close> on a class only, \<open>?\<close>, alternation, sequence and capturing groups.
  \<open>rmatch\<close> is the backtracking matcher: it returns every way to match a prefix of the
  input, in the order in which Python's engine tries them (alternatives left to right,
  \<open>+\<close> and \<open>?\<close> greedy), each as the rest of the input and the groups closed so far.
\<close>

datatype cclass = Space | Digit

datatype rx =
    Lit string
  | Cls cclass
  | Plus cclass
  | Opt rx
  | Alt "rx list"
  | Seq "rx list"
  | Grp rx

fun in_class :: "cclass \<Rightarrow> char \<Rightarrow> bool" where
  "in_class Space c = is_space c"
| "in_class Digit c = is_digit c"

fun plus_rests :: "cclass \<Rightarrow> string \<Rightarrow> string list" where
  \<comment> \<open>The rests after one or more characters of the class, the longest run first.\<close>
  "plus_rests k [] = []"
| "plus_rests k (c # s) = (if in_class k c then plus_rests k s @ [s] else [])"

type_synonym mstate = "string \<times> string list"

fun rmatch :: "rx \<Rightarrow> mstate \<Rightarrow> mstate list" where
  "rmatch (Lit w) st =
     (if starts_with w (fst st) then [(drop (length w) (fst st), snd st)] else [])"
| "rmatch (Cls k) st =
     (case fst st of [] \<Rightarrow> []
      | c # t \<Rightarrow> if in_class k c then [(t, snd st)] else [])"
| "rmatch (Plus k) st = map (\<lambda>t. (t, snd st)) (plus_rests k (fst st))"
| "rmatch (Opt r) st = rmatch r st @ [st]"
| "rmatch (Alt rs) st = concat (map (\<lambda>r. rmatch r st) rs)"
| "rmatch (Seq rs) st = fold (\<lambda>r sts. concat (map (rmatch r) sts)) rs [st]"
| "rmatch (Grp r) st =
     map (\<lambda>st'. (fst st', snd st' @ [take (length (fst st) - length (fst st')) (fst st)]))
         (rmatch r st)"

fun search :: "rx \<Rightarrow> string \<Rightarrow> string list option" where
  \<comment> \<open>\<open>re.search\<close>: the leftmost start with a match and, there, the first match the
      engine finds; the result lists \<open>group(1)\<close>, \<open>group(2)\<close>, ...\<close>
  "search r [] = (case rmatch r ([], []) of [] \<Rightarrow> None | st # _ \<Rightarrow> Some (snd st))"
| "search r (c # s) =
     (case rmatch r (c # s, []) of [] \<Rightarrow> search r s | st # _ \<Rightarrow> Some (snd st))"

definition matches :: "rx \<Rightarrow> string \<Rightarrow> bool" where
  \<comment> \<open>The truth value of \<open>re.search(pattern, s)\<close>.\<close>
  "matches r s \<longleftrightarrow> search r s \<noteq> None"

definition words :: "string list \<Rightarrow> rx" where
  \<comment> \<open>\<open>(w1|w2|...)\<close> without a group, for patterns whose groups are never read.\<close>
  "words ws = Alt (map Lit ws)"

section \<open>Intent classifier\<close>

datatype QueryIntent =
  SEARCH | RECOMMENDATION | COMPARISON | ANALYTICS | FILTER | INFORMATION | UNKNOWN

definition all_intents :: "QueryIntent list" where
  \<comment> \<open>The members of the enumeration, in definition order.\<close>
  "all_intents =
     [SEARCH, RECOMMENDATION, COMPARISON, ANALYTICS, FILTER, INFORMATION, UNKNOWN]"

definition ws1 :: rx where
  \<comment> \<open>\<open>\s+\<close>\<close>
  "ws1 = Plus Space"

definition opt_s :: "string \<Rightarrow> rx" where
  \<comment> \<open>\<open>books?\<close>, \<open>novels?\<close>: the word with an optional final s.\<close>
  "opt_s w = Seq [Lit w, Opt (Lit ''s'')]"

definition intent_patterns :: "(QueryIntent \<times> string list \<times> rx list) list" where
  \<comment> \<open>Each intent with its keywords and its patterns, in the order of the dictionary.
      The groups of these patterns are never read, so they are not recorded.\<close>
  "intent_patterns =
   [(SEARCH,
     [''find'', ''search'', ''looking for'', ''show me'', ''get'', ''want'', ''need''],
     [Seq [words [''find'', ''search'', ''looking for'', ''show me'', ''get me''], ws1,
           Alt [opt_s ''book'', opt_s ''novel'']],
      Seq [words [''want'', ''need''], ws1, words [''a'', ''an'', ''some''], ws1,
           words [''book'', ''novel'']],
      Seq [opt_s ''book'', ws1, words [''about'', ''on'', ''related to'']]]),
    (RECOMMENDATION,
     [''recommend'', ''suggest'', ''similar'', ''like'', ''based on''],
     [Seq [words [''recommend'', ''suggest''], ws1, Alt [opt_s ''book'', Lit ''something'']],
      Seq [words [''similar'', ''like''], ws1],
      Lit ''based on'',
      Lit ''what should I read'',
      Seq [Lit ''good '', opt_s ''book'', ws1, words [''for'', ''about'']]]),
    (COMPARISON,
     [''compare'', ''cheaper'', ''better'', ''versus'', ''vs'', ''difference'', ''which''],
     [Seq [words [''compare'', ''comparison''], ws1],
      Seq [words [''cheaper'', ''better'', ''best''], ws1, words [''store'', ''price'']],
      Seq [words [''which'', ''what''], ws1, words [''store'', ''bookstore''], ws1,
           words [''is'', ''has'']],
      Seq [Alt [Lit ''versus'', Seq [Lit ''vs'', Opt (Lit ''.'')]], ws1],
      Lit ''difference between'']),
    (ANALYTICS,
     [''most popular'', ''average'', ''statistics'', ''how many'', ''total'', ''count''],
     [Seq [words [''most'', ''least''], ws1, words [''popular'', ''expensive'', ''rated'']],
      Seq [words [''average'', ''mean''], ws1, words [''price'', ''rating'']],
      words [''how many'', ''total'', ''count''],
      Seq [Lit ''statistics'', ws1, words [''about'', ''on'', ''for'']],
      Seq [words [''top'', ''best''], ws1, Plus Digit]]),
    (FILTER,
     [''under'', ''over'', ''between'', ''more than'', ''less than'', ''only''],
     [Seq [words [''under'', ''below'', ''less than''], ws1, Opt (Lit ''$''), Plus Digit],
      Seq [words [''over'', ''above'', ''more than''], ws1, Opt (Lit ''$''), Plus Digit],
      Seq [Lit ''between'', ws1, Opt (Lit ''$''), Plus Digit, ws1, Lit ''and'', ws1,
           Opt (Lit ''$''), Plus Digit],
      Seq [words [''only'', ''just''], ws1, words [''available'', ''in stock'']],
      Seq [Lit ''rated'', ws1, words [''above'', ''below'', ''over''], ws1, Cls Digit]]),
    (INFORMATION,
     [''tell me about'', ''information'', ''details'', ''describe'', ''what is''],
     [Lit ''tell me about'',
      Seq [words [''information'', ''details''], ws1, words [''about'', ''on'']],
      words [''describe'', ''explain''],
      Seq [Lit ''what is'', ws1]])]"

definition count_where :: "('a \<Rightarrow> bool) \<Rightarrow> 'a list \<Rightarrow> nat" where
  \<comment> \<open>\<open>sum(1 for x in xs if p(x))\<close>\<close>
  "count_where p xs = length (filter p xs)"

definition intent_score :: "string list \<Rightarrow> rx list \<Rightarrow> string \<Rightarrow> rat" where
  \<comment> \<open>The body of the loop of \<open>classify\<close> for one intent.\<close>
  "intent_score keywords patterns query_lower =
     (let keyword_matches = count_where (\<lambda>kw. contains query_lower kw) keywords;
          score = 0 + of_nat keyword_matches * (3 / 10);
          pattern_matches = count_where (\<lambda>p. matches p query_lower) patterns;
          score = score + of_nat pattern_matches * (1 / 2)
      in min score 1)"

definition intent_scores :: "string \<Rightarrow> (QueryIntent \<times> rat) list" where
  \<comment> \<open>The dictionary \<open>intent_scores\<close> after the loop, in insertion order.\<close>
  "intent_scores query_lower =
     fold (\<lambda>(intent, keywords, patterns). AList.update intent
             (intent_score keywords patterns query_lower))
          intent_patterns
          (map (\<lambda>intent. (intent, 0)) all_intents)"

fun max_by_score :: "(QueryIntent \<times> rat) \<Rightarrow> (QueryIntent \<times> rat) list \<Rightarrow> (QueryIntent \<times> rat)" where
  \<comment> \<open>\<open>max(items, key=lambda x: x[1])\<close> with the best item so far: a later item
      replaces it only when its score is strictly larger.\<close>
  "max_by_score best [] = best"
| "max_by_score best (x # xs) = max_by_score (if snd best < snd x then x else best) xs"

definition classify :: "string \<Rightarrow> QueryIntent \<times> rat" where
  "classify query =
     (let query_lower = strip (lower query);
          scores = intent_scores query_lower;
          best_intent = max_by_score (hd scores) (tl scores)
      in if snd best_intent < 3 / 10 then (UNKNOWN, snd best_intent)
         else (fst best_intent, snd best_intent))"

section \<open>Entity extractor\<close>

text \<open>\<open>EntityExtractor.extract\<close> is \<open>extract_entities\<close> below.\<close>

record bounds =
  bmin :: "rat option"
  bmax :: "rat option"

record entities =
  genres :: "string list"
  price_range :: "bounds option"
  rating_range :: "bounds option"
  authors :: "string list"
  stores :: "string list"
  format :: "string option"
  availability :: "bool option"
  sort_by :: "string option"
  limit :: "nat option"

definition genre_keywords :: "(string \<times> string list) list" where
  "genre_keywords =
   [(''science fiction'',
       [''sci-fi'', ''scifi'', ''science fiction'', ''sf'', ''space'', ''futuristic'']),
    (''fantasy'', [''fantasy'', ''magic'', ''wizard'', ''dragon'', ''medieval'', ''quest'']),
    (''mystery'',
       [''mystery'', ''detective'', ''crime'', ''thriller'', ''investigation'', ''murder'']),
    (''romance'', [''romance'', ''love'', ''romantic'', ''relationship'']),
    (''horror'', [''horror'', ''scary'', ''terror'', ''haunted'', ''ghost'']),
    (''biography'', [''biography'', ''autobiography'', ''memoir'', ''life story'']),
    (''history'', [''history'', ''historical'', ''war'', ''ancient'']),
    (''self-help'', [''self-help'', ''self help'', ''personal development'', ''motivation'']),
    (''children'', [''children'', ''kids'', ''young readers'', ''picture book'']),
    (''young adult'', [''ya'', ''young adult'', ''teen'', ''teenage''])]"

definition any_in :: "string list \<Rightarrow> string \<Rightarrow> bool" where
  \<comment> \<open>\<open>any(phrase in query for phrase in phrases)\<close>\<close>
  "any_in phrases query = list_ex (\<lambda>phrase. contains query phrase) phrases"

definition found_genres :: "string \<Rightarrow> string list" where
  \<comment> \<open>The list \<open>found_genres\<close> after the loop: each genre one of whose keywords
      occurs, once, in the order of the table.\<close>
  "found_genres query = map fst (filter (\<lambda>(genre, kws). any_in kws query) genre_keywords)"

text \<open>
  \<open>_extract_genres\<close> returns \<open>list(set(found_genres))\<close>. The order in which Python
  iterates a set of strings depends on the hash seed of the process, so the conversion
  is a parameter \<open>set_list\<close> of the model; \<open>set_order\<close> says what every such conversion
  satisfies.
\<close>

definition set_order :: "(string list \<Rightarrow> string list) \<Rightarrow> bool" where
  "set_order set_list \<longleftrightarrow>
     (\<forall>xs. distinct (set_list xs) \<and> set (set_list xs) = set xs)"

definition extract_genres :: "(string list \<Rightarrow> string list) \<Rightarrow> string \<Rightarrow> string list" where
  "extract_genres set_list query = set_list (found_genres query)"

definition group :: "nat \<Rightarrow> string list \<Rightarrow> string" where
  \<comment> \<open>\<open>match.group(n)\<close> for \<open>n \<ge> 1\<close>\<close>
  "group n caps = caps ! (n - 1)"

definition price_number :: rx where
  \<comment> \<open>\<open>\d+(?:\.\d{2})?\<close>\<close>
  "price_number = Seq [Plus Digit, Opt (Seq [Lit ''.'', Cls Digit, Cls Digit])]"

definition rating_number :: rx where
  \<comment> \<open>\<open>\d(?:\.\d)?\<close>\<close>
  "rating_number = Seq [Cls Digit, Opt (Seq [Lit ''.'', Cls Digit])]"

definition dict_or_none :: "bounds \<Rightarrow> bounds option" where
  \<comment> \<open>\<open>d if d else None\<close> for the dictionary with the optional keys min and max.\<close>
  "dict_or_none b = (if bmin b = None \<and> bmax b = None then None else Some b)"

definition extract_price_range :: "string \<Rightarrow> bounds option" where
  "extract_price_range query =
     (let price_range = \<lparr>bmin = None, bmax = None\<rparr>;
          price_range =
            (case search (Seq [Grp (words [''under'', ''below'', ''less than'']), ws1,
                               Opt (Lit ''$''), Grp price_number]) query of
               Some m \<Rightarrow> price_range\<lparr>bmax := Some (float_of_decimal (group 2 m))\<rparr>
             | None \<Rightarrow> price_range);
          price_range =
            (case search (Seq [Grp (words [''over'', ''above'', ''more than'']), ws1,
                               Opt (Lit ''$''), Grp price_number]) query of
               Some m \<Rightarrow> price_range\<lparr>bmin := Some (float_of_decimal (group 2 m))\<rparr>
             | None \<Rightarrow> price_range);
          price_range =
            (case search (Seq [Lit ''between'', ws1, Opt (Lit ''$''), Grp price_number, ws1,
                               Lit ''and'', ws1, Opt (Lit ''$''), Grp price_number]) query of
               Some m \<Rightarrow> price_range\<lparr>bmin := Some (float_of_decimal (group 1 m)),
                                      bmax := Some (float_of_decimal (group 2 m))\<rparr>
             | None \<Rightarrow> price_range)
      in dict_or_none price_range)"

definition extract_rating_range :: "string \<Rightarrow> bounds option" where
  "extract_rating_range query =
     (let rating_range = \<lparr>bmin = None, bmax = None\<rparr>;
          rating_range =
            (case search (Seq [Lit ''rate'', Opt (Lit ''d''), ws1,
                               Grp (words [''above'', ''over'']), ws1, Grp rating_number])
                         query of
               Some m \<Rightarrow> rating_range\<lparr>bmin := Some (float_of_decimal (group 2 m))\<rparr>
             | None \<Rightarrow> rating_range);
          rating_range =
            (case search (Seq [Lit ''rate'', Opt (Lit ''d''), ws1,
                               Grp (words [''below'', ''under'']), ws1, Grp rating_number])
                         query of
               Some m \<Rightarrow> rating_range\<lparr>bmax := Some (float_of_decimal (group 2 m))\<rparr>
             | None \<Rightarrow> rating_range);
          rating_range =
            (if contains query ''highly rated'' \<or> contains query ''high rating''
             then rating_range\<lparr>bmin := Some 4\<rparr> else rating_range)
      in dict_or_none rating_range)"

definition store_letter_rx :: rx where
  \<comment> \<open>\<open>([AB]|a|b)\<close>\<close>
  "store_letter_rx = Grp (Alt [Alt [Lit ''A'', Lit ''B''], Lit ''a'', Lit ''b''])"

definition store_patterns :: "rx list" where
  "store_patterns =
     [Seq [Grp (words [''store'', ''bookstore'']), ws1, store_letter_rx],
      Seq [Grp (words [''bookstore'', ''shop'']), ws1, store_letter_rx]]"

definition extract_stores :: "string \<Rightarrow> string list" where
  "extract_stores query =
     (let stores =
            fold (\<lambda>pattern stores.
                    case search pattern query of
                      Some m \<Rightarrow>
                        (let store_letter = upper (group 2 m)
                         in stores @ [''store_'' @ lower store_letter])
                    | None \<Rightarrow> stores)
                 store_patterns []
      in if contains query ''both stores'' \<or> contains query ''all stores''
         then [''store_a'', ''store_b''] else stores)"

definition format_keywords :: "(string \<times> string list) list" where
  "format_keywords =
     [(''ebook'', [''ebook'', ''e-book'', ''digital'', ''kindle'']),
      (''audiobook'', [''audiobook'', ''audio book'', ''audible'']),
      (''hardcover'', [''hardcover'', ''hardback'']),
      (''paperback'', [''paperback'', ''softcover''])]"

definition extract_format :: "string \<Rightarrow> string option" where
  \<comment> \<open>The first format of the table one of whose keywords occurs.\<close>
  "extract_format query =
     (case filter (\<lambda>(format_type, kws). any_in kws query) format_keywords of
        [] \<Rightarrow> None
      | (format_type, kws) # _ \<Rightarrow> Some (capitalize format_type))"

definition extract_availability :: "string \<Rightarrow> bool option" where
  "extract_availability query =
     (if any_in [''in stock'', ''available'', ''available now''] query then Some True
      else if any_in [''out of stock'', ''unavailable''] query then Some False
      else None)"

definition extract_sort_preference :: "string \<Rightarrow> string option" where
  "extract_sort_preference query =
     (if contains query ''cheapest'' \<or> contains query ''lowest price''
        then Some ''price_asc''
      else if contains query ''most expensive'' \<or> contains query ''highest price''
        then Some ''price_desc''
      else if contains query ''highest rated'' \<or> contains query ''best rated''
        then Some ''rating_desc''
      else if contains query ''newest'' \<or> contains query ''most recent''
        then Some ''year_desc''
      else if contains query ''oldest'' then Some ''year_asc''
      else None)"

definition return_int :: "string \<Rightarrow> exn + nat option" where
  \<comment> \<open>\<open>return int(s)\<close>\<close>
  "return_int s = (case py_int s of Inl e \<Rightarrow> Inl e | Inr n \<Rightarrow> Inr (Some n))"

definition extract_limit :: "string \<Rightarrow> exn + nat option" where
  "extract_limit query =
     (case search (Seq [Lit ''top'', ws1, Grp (Plus Digit)]) query of
        Some m \<Rightarrow> return_int (group 1 m)
      | None \<Rightarrow>
     (case search (Seq [Grp (Plus Digit), ws1, opt_s ''book'']) query of
        Some m \<Rightarrow> return_int (group 1 m)
      | None \<Rightarrow>
     (case search (Seq [Lit ''first'', ws1, Grp (Plus Digit)]) query of
        Some m \<Rightarrow> return_int (group 1 m)
      | None \<Rightarrow> Inr None)))"

definition extract_entities :: "(string list \<Rightarrow> string list) \<Rightarrow> string \<Rightarrow> exn + entities" where
  \<comment> \<open>Only the extraction of the limit can raise; it is the last one.\<close>
  "extract_entities set_list query =
     (let query_lower = strip (lower query);
          found = extract_genres set_list query_lower;
          prices = extract_price_range query_lower;
          ratings = extract_rating_range query_lower;
          found_stores = extract_stores query_lower;
          fmt = extract_format query_lower;
          avail = extract_availability query_lower;
          sort_pref = extract_sort_preference query_lower
      in case extract_limit query_lower of
           Inl e \<Rightarrow> Inl e
         | Inr n \<Rightarrow>
             Inr \<lparr>genres = found, price_range = prices, rating_range = ratings,
                  authors = [], stores = found_stores, format = fmt,
                  availability = avail, sort_by = sort_pref, limit = n\<rparr>)"

section \<open>Query processor\<close>

datatype filter_value =
    Ops "(string \<times> rat) list"
  | Str string
  | Bool bool
  | In_list "string list"

text \<open>
  A filter dictionary is an association list in insertion order: \<open>Ops\<close> is a dictionary
  of comparison operators (\<open>$gte\<close>, \<open>$lte\<close>), \<open>In_list xs\<close> is \<open>{'$in': xs}\<close>, and
  \<open>Str\<close> and \<open>Bool\<close> are the values of an equality constraint.
\<close>

type_synonym filter_dict = "(string \<times> filter_value) list"

record query_metadata =
  query_length :: nat
  word_count :: nat
  has_price_constraint :: bool
  has_rating_constraint :: bool
  has_store_preference :: bool
  genre_count :: nat
  sort_preference :: "string option"
  result_limit :: "nat option"
  requires_comparison :: bool
  requires_aggregation :: bool

record ParsedQuery =
  original_query :: string
  intent :: QueryIntent
  confidence :: rat
  entities :: entities
  query_keywords :: "string list"
  filters :: filter_dict
  metadata :: query_metadata

definition stop_words :: "string list" where
  "stop_words =
     [''a'', ''an'', ''the'', ''and'', ''or'', ''but'', ''in'', ''on'', ''at'', ''to'', ''for'',
      ''of'', ''with'', ''by'', ''from'', ''about'', ''as'', ''is'', ''are'', ''was'', ''were'',
      ''be'', ''been'', ''being'', ''have'', ''has'', ''had'', ''do'', ''does'', ''did'',
      ''will'', ''would'', ''should'', ''could'', ''may'', ''might'', ''can'', ''i'', ''you'',
      ''he'', ''she'', ''it'', ''we'', ''they'', ''me'', ''him'', ''her'', ''us'', ''them'',
      ''find'', ''search'', ''looking'', ''show'', ''get'', ''want'', ''need'']"

definition extract_keywords :: "string \<Rightarrow> string list" where
  "extract_keywords query =
     filter (\<lambda>word. word \<notin> set stop_words \<and> 2 < length word) (word_tokens (lower query))"

definition set_op :: "string \<Rightarrow> string \<Rightarrow> rat \<Rightarrow> filter_dict \<Rightarrow> filter_dict" where
  \<comment> \<open>\<open>filters.setdefault(key, {})[op] = v\<close>\<close>
  "set_op key op v fs =
     AList.update key
       (Ops (AList.update op v (case map_of fs key of Some (Ops d) \<Rightarrow> d | _ \<Rightarrow> []))) fs"

definition range_filters :: "string \<Rightarrow> bounds option \<Rightarrow> filter_dict \<Rightarrow> filter_dict" where
  \<comment> \<open>The price block and the rating block of \<open>_build_filters\<close>: nothing for an absent
      or empty range, else \<open>$gte\<close> for min, then \<open>$lte\<close> for max.\<close>
  "range_filters key r fs =
     (case r of
        None \<Rightarrow> fs
      | Some b \<Rightarrow>
          (let fs = (case bmin b of Some v \<Rightarrow> set_op key ''$gte'' v fs | None \<Rightarrow> fs)
           in (case bmax b of Some v \<Rightarrow> set_op key ''$lte'' v fs | None \<Rightarrow> fs)))"

definition list_filter :: "string \<Rightarrow> string list \<Rightarrow> filter_dict \<Rightarrow> filter_dict" where
  \<comment> \<open>The store block and the genre block: nothing for an empty list, equality for a
      list of length one, else \<open>$in\<close>.\<close>
  "list_filter key xs fs =
     (if xs = [] then fs
      else if length xs = 1 then AList.update key (Str (xs ! 0)) fs
      else AList.update key (In_list xs) fs)"

definition build_filters :: "entities \<Rightarrow> filter_dict" where
  "build_filters e =
     (let fs = [];
          fs = range_filters ''price'' (price_range e) fs;
          fs = range_filters ''rating'' (rating_range e) fs;
          fs = list_filter ''store_id'' (stores e) fs;
          fs = (case format e of
                  Some f \<Rightarrow> if f = [] then fs else AList.update ''format_type'' (Str f) fs
                | None \<Rightarrow> fs);
          fs = (case availability e of
                  Some a \<Rightarrow> AList.update ''availability'' (Bool a) fs
                | None \<Rightarrow> fs);
          fs = list_filter ''genre'' (genres e) fs
      in fs)"

definition extract_metadata :: "string \<Rightarrow> QueryIntent \<Rightarrow> entities \<Rightarrow> query_metadata" where
  "extract_metadata query i e =
     \<lparr>query_length = length query,
      word_count = length (split_ws query),
      has_price_constraint = (price_range e \<noteq> None),
      has_rating_constraint = (rating_range e \<noteq> None),
      has_store_preference = (0 < length (stores e)),
      genre_count = length (genres e),
      sort_preference = sort_by e,
      result_limit = limit e,
      requires_comparison = (i = COMPARISON),
      requires_aggregation = (i = ANALYTICS)\<rparr>"

definition process :: "(string list \<Rightarrow> string list) \<Rightarrow> string \<Rightarrow> exn + ParsedQuery" where
  \<comment> \<open>An exception of the extraction leaves \<open>process\<close> as it is.\<close>
  "process set_list query =
     (let (i, c) = classify query
      in case extract_entities set_list query of
           Inl x \<Rightarrow> Inl x
         | Inr e \<Rightarrow>
             (let kws = extract_keywords query;
                  fs = build_filters e;
                  md = extract_metadata query i e
              in Inr \<lparr>original_query = query, intent = i, confidence = c, entities = e,
                      query_keywords = kws, filters = fs, metadata = md\<rparr>))"

section \<open>Query router\<close>









section \<open>Query retriever\<close>

record book_metadata =
  title :: string
  author :: string
  genre :: string
  price :: rat
  rating :: "rat option"
  store_id :: string
  store_name :: string
  publisher :: "string option"
  publication_year :: "nat option"
  format_type :: "string option"
  available :: bool

text \<open>
  An item the search collaborator returns. \<open>rating = None\<close> is a missing or null
  rating (\<open>metadata.get('rating')\<close> is \<open>None\<close> for both); \<open>format_type = None\<close> is a
  missing key.
\<close>

record item =
  item_id :: string
  score :: rat
  item_metadata :: book_metadata
  document :: string

record search_call =
  call_query :: string
  call_n_results :: nat
  call_filters :: filter_dict

text \<open>
  The collaborator \<open>indexer.search_books\<close>: \<open>respond\<close> is what it answers to a call (a
  list of items, or \<open>Inl\<close> when it raises), and \<open>calls\<close> records the calls made so far,
  in order, so that what a strategy asks of the collaborator can be stated.
\<close>

record indexer =
  respond :: "search_call \<Rightarrow> exn + item list"
  calls :: "search_call list"

definition search_books ::
  "indexer \<Rightarrow> string \<Rightarrow> nat \<Rightarrow> filter_dict \<Rightarrow> (exn + item list) \<times> indexer" where
  "search_books ix q n fs =
     (let c = \<lparr>call_query = q, call_n_results = n, call_filters = fs\<rparr>
      in (respond ix c, ix\<lparr>calls := calls ix @ [c]\<rparr>))"

fun join :: "string \<Rightarrow> string list \<Rightarrow> string" where
  \<comment> \<open>\<open>sep.join(xs)\<close>\<close>
  "join sep [] = []"
| "join sep [x] = x"
| "join sep (x # y # ys) = x @ sep @ join sep (y # ys)"

definition build_search_text :: "ParsedQuery \<Rightarrow> string" where
  "build_search_text pq =
     (let components = query_keywords pq @ genres (entities pq)
      in if components = []
         then strip (fold remove_all
                [''find'', ''search'', ''looking for'', ''show me'', ''get'', ''want'', ''need'']
                (lower (original_query pq)))
         else join '' '' components)"

definition build_recommendation_text :: "ParsedQuery \<Rightarrow> string" where
  "build_recommendation_text pq =
     (let components = genres (entities pq) @
            filter (\<lambda>kw. kw \<notin> set [''book'', ''books'', ''recommend'', ''suggest'', ''similar''])
                   (query_keywords pq)
      in if components = [] then ''popular books'' else join '' '' components)"

fun first_pass ::
  "item list \<Rightarrow> nat \<Rightarrow> item list \<times> string set \<times> string set \<Rightarrow> item list \<times> string set \<times> string set" where
  \<comment> \<open>The first loop of \<open>_diversify_results\<close>, on the state \<open>(diversified,
      seen_authors, seen_genres)\<close>; the loop stops at the \<open>break\<close>.\<close>
  "first_pass [] limit_n st = st"
| "first_pass (r # rs) limit_n (diversified, seen_authors, seen_genres) =
     (if author (item_metadata r) \<notin> seen_authors \<or> genre (item_metadata r) \<notin> seen_genres
      then (let diversified = diversified @ [r];
                seen_authors = insert (author (item_metadata r)) seen_authors;
                seen_genres = insert (genre (item_metadata r)) seen_genres
            in if limit_n \<le> length diversified then (diversified, seen_authors, seen_genres)
               else first_pass rs limit_n (diversified, seen_authors, seen_genres))
      else first_pass rs limit_n (diversified, seen_authors, seen_genres))"

fun second_pass :: "item list \<Rightarrow> nat \<Rightarrow> item list \<Rightarrow> item list" where
  \<comment> \<open>The second loop: \<open>result not in diversified\<close> compares items by value.\<close>
  "second_pass [] limit_n diversified = diversified"
| "second_pass (r # rs) limit_n diversified =
     (if r \<notin> set diversified
      then (let diversified = diversified @ [r]
            in if limit_n \<le> length diversified then diversified
               else second_pass rs limit_n diversified)
      else second_pass rs limit_n diversified)"

definition diversify_results :: "item list \<Rightarrow> nat \<Rightarrow> item list" where
  "diversify_results results limit_n =
     (let diversified = fst (first_pass results limit_n ([], {}, {}));
          diversified = (if length diversified < limit_n then second_pass results limit_n diversified
                         else diversified)
      in take limit_n diversified)"

definition limit_or :: "nat \<Rightarrow> ParsedQuery \<Rightarrow> nat" where
  \<comment> \<open>\<open>parsed_query.entities.get('limit') or d\<close>: the limit unless it is absent or 0.\<close>
  "limit_or d pq = (case limit (entities pq) of None \<Rightarrow> d | Some n \<Rightarrow> if n = 0 then d else n)"

definition retrieve_for_recommendation ::
  "indexer \<Rightarrow> ParsedQuery \<Rightarrow> (exn + item list) \<times> indexer" where
  "retrieve_for_recommendation ix pq =
     (let search_text = build_recommendation_text pq;
          limit_n = limit_or 10 pq;
          (res, ix) = search_books ix search_text (limit_n * 2) (filters pq)
      in case res of
           Inl e \<Rightarrow> (Inl e, ix)
         | Inr results \<Rightarrow> (Inr (diversify_results results limit_n), ix))"

definition truthy :: "rat option \<Rightarrow> bool" where
  \<comment> \<open>The truth value of \<open>metadata.get('rating')\<close>: false for \<open>None\<close> and for zero.\<close>
  "truthy r = (case r of None \<Rightarrow> False | Some x \<Rightarrow> x \<noteq> 0)"

record store_stats =
  stats_store_name :: string
  book_count :: nat
  avg_price :: rat
  min_price :: rat
  max_price :: rat
  avg_rating :: "rat option"
  sample_books :: "item list"

record comparison =
  comparison_stores :: "(string \<times> store_stats) list"
  overall_total_books :: nat
  overall_stores_compared :: nat

definition group_by_store :: "item list \<Rightarrow> (string \<times> item list) list" where
  \<comment> \<open>The dictionary \<open>store_data\<close>, in insertion order.\<close>
  "group_by_store all_books =
     fold (\<lambda>book store_data.
             let sid = store_id (item_metadata book)
             in AList.update sid
                  ((case map_of store_data sid of None \<Rightarrow> [] | Some bs \<Rightarrow> bs) @ [book])
                  store_data)
          all_books []"

definition comparison_ratings :: "item list \<Rightarrow> rat list" where
  \<comment> \<open>\<open>[b['metadata'].get('rating', 0) for b in books if b['metadata'].get('rating')]\<close>\<close>
  "comparison_ratings books =
     map (\<lambda>b. case rating (item_metadata b) of None \<Rightarrow> 0 | Some x \<Rightarrow> x)
         (filter (\<lambda>b. truthy (rating (item_metadata b))) books)"

definition store_entry :: "item list \<Rightarrow> store_stats option" where
  \<comment> \<open>The body of the loop over \<open>store_data\<close>: nothing for an empty list.\<close>
  "store_entry books =
     (case books of
        [] \<Rightarrow> None
      | b0 # bs \<Rightarrow>
          (let prices = map (\<lambda>b. price (item_metadata b)) books;
               ratings = comparison_ratings books
           in Some \<lparr>stats_store_name = store_name (item_metadata b0),
                    book_count = length books,
                    avg_price = sum_list prices / of_nat (length prices),
                    min_price = fold min (tl prices) (hd prices),
                    max_price = fold max (tl prices) (hd prices),
                    avg_rating = (if ratings = [] then None
                                  else Some (sum_list ratings / of_nat (length ratings))),
                    sample_books = take 3 books\<rparr>))"

definition retrieve_for_comparison ::
  "indexer \<Rightarrow> ParsedQuery \<Rightarrow> (exn + comparison) \<times> indexer" where
  "retrieve_for_comparison ix pq =
     (let search_text = build_search_text pq;
          (res, ix) = search_books ix search_text 50 []
      in case res of
           Inl e \<Rightarrow> (Inl e, ix)
         | Inr all_books \<Rightarrow>
             (let store_data = group_by_store all_books
              in (Inr \<lparr>comparison_stores =
                          concat (map (\<lambda>(sid, books).
                                    case store_entry books of None \<Rightarrow> []
                                    | Some s \<Rightarrow> [(sid, s)]) store_data),
                        overall_total_books = length all_books,
                        overall_stores_compared = length store_data\<rparr>, ix)))"

record price_stats =
  price_average :: rat
  price_min :: rat
  price_max :: rat
  price_median :: rat

definition calculate_price_stats :: "item list \<Rightarrow> exn + price_stats" where
  \<comment> \<open>On an empty list the division \<open>sum(prices) / len(prices)\<close> raises.\<close>
  "calculate_price_stats books =
     (let prices = map (\<lambda>b. price (item_metadata b)) books
      in case prices of
           [] \<Rightarrow> Inl ZeroDivisionError
         | p # ps \<Rightarrow>
             Inr \<lparr>price_average = sum_list prices / of_nat (length prices),
                  price_min = fold min ps p,
                  price_max = fold max ps p,
                  price_median = sort prices ! (length prices div 2)\<rparr>)"

record rating_stats =
  rating_average :: "rat option"
  rating_min :: "rat option"
  rating_max :: "rat option"
  rating_count :: "nat option"

text \<open>
  The dictionary of rating statistics: without a rated item it is
  \<open>{'average': None, 'min': None, 'max': None}\<close>, which has no key \<open>count\<close>
  (\<open>rating_count = None\<close>).
\<close>

definition analytics_ratings :: "item list \<Rightarrow> rat list" where
  \<comment> \<open>\<open>[b['metadata'].get('rating') for b in books if b['metadata'].get('rating')]\<close>\<close>
  "analytics_ratings books =
     concat (map (\<lambda>b. case rating (item_metadata b) of None \<Rightarrow> [] | Some x \<Rightarrow> [x])
                 (filter (\<lambda>b. truthy (rating (item_metadata b))) books))"

definition calculate_rating_stats :: "item list \<Rightarrow> rating_stats" where
  "calculate_rating_stats books =
     (let ratings = analytics_ratings books
      in case ratings of
           [] \<Rightarrow> \<lparr>rating_average = None, rating_min = None, rating_max = None,
                  rating_count = None\<rparr>
         | r # rs \<Rightarrow>
             \<lparr>rating_average = Some (sum_list ratings / of_nat (length ratings)),
              rating_min = Some (fold min rs r),
              rating_max = Some (fold max rs r),
              rating_count = Some (length ratings)\<rparr>)"

definition counter :: "string list \<Rightarrow> (string \<times> nat) list" where
  \<comment> \<open>\<open>dict(Counter(xs))\<close>: the counts, in the order of first occurrence.\<close>
  "counter xs =
     fold (\<lambda>x d. AList.update x (case map_of d x of None \<Rightarrow> 1 | Some n \<Rightarrow> n + 1) d) xs []"

definition most_common :: "(string \<times> nat) list \<Rightarrow> (string \<times> nat) list" where
  \<comment> \<open>\<open>Counter.most_common()\<close>: by count, largest first, ties in the order of first
      occurrence.\<close>
  "most_common d = sort_key (\<lambda>(k, n). - int n) d"

definition calculate_genre_distribution :: "item list \<Rightarrow> (string \<times> nat) list" where
  "calculate_genre_distribution books =
     most_common (counter (map (\<lambda>b. genre (item_metadata b)) books))"

definition calculate_store_distribution :: "item list \<Rightarrow> (string \<times> nat) list" where
  "calculate_store_distribution books = counter (map (\<lambda>b. store_name (item_metadata b)) books)"

definition calculate_format_distribution :: "item list \<Rightarrow> (string \<times> nat) list" where
  "calculate_format_distribution books =
     counter (map (\<lambda>b. case format_type (item_metadata b) of None \<Rightarrow> ''Physical''
                        | Some f \<Rightarrow> f) books)"

record analytics =
  total_books :: nat
  analytics_price_stats :: price_stats
  analytics_rating_stats :: rating_stats
  genre_distribution :: "(string \<times> nat) list"
  store_distribution :: "(string \<times> nat) list"
  format_distribution :: "(string \<times> nat) list"

datatype analytics_result = No_data string | Stats analytics

definition retrieve_for_analytics ::
  "indexer \<Rightarrow> ParsedQuery \<Rightarrow> (exn + analytics_result) \<times> indexer" where
  "retrieve_for_analytics ix pq =
     (let search_text = build_search_text pq;
          (res, ix) = search_books ix search_text 100 (filters pq)
      in case res of
           Inl e \<Rightarrow> (Inl e, ix)
         | Inr books \<Rightarrow>
             if books = [] then (Inr (No_data ''No books found for analytics''), ix)
             else (case calculate_price_stats books of
                     Inl e \<Rightarrow> (Inl e, ix)
                   | Inr ps \<Rightarrow>
                       (Inr (Stats
                          \<lparr>total_books = length books,
                           analytics_price_stats = ps,
                           analytics_rating_stats = calculate_rating_stats books,
                           genre_distribution = calculate_genre_distribution books,
                           store_distribution = calculate_store_distribution books,
                           format_distribution = calculate_format_distribution books\<rparr>), ix)))"


definition rated :: "item list \<Rightarrow> rat list" where
  \<comment> \<open>For the statement of claim C10: the ratings of the items whose rating is neither
      null nor zero, in the order of the items.\<close>
  "rated books = map (\<lambda>b. the (rating (item_metadata b)))
     (filter (\<lambda>b. rating (item_metadata b) \<noteq> None \<and> rating (item_metadata b) \<noteq> Some 0) books)"

definition sample_book :: "string \<Rightarrow> string \<Rightarrow> string \<Rightarrow> rat \<Rightarrow> rat option \<Rightarrow> string \<Rightarrow> item" where
  \<comment> \<open>An item with the given id, author, genre, price, rating and store, as the
      collaborator returns them; used for the concrete inputs below.\<close>
  "sample_book i a g p r s =
     \<lparr>item_id = i, score = 1,
      item_metadata =
        \<lparr>title = i, author = a, genre = g, price = p, rating = r, store_id = s,
         store_name = s, publisher = None, publication_year = None, format_type = None,
         available = True\<rparr>,
      document = i\<rparr>"

section \<open>Substring tests\<close>

lemma starts_with_append: "starts_with w (w @ s)"
  by (induction w) simp_all

lemma starts_with_iff: "starts_with w s \<longleftrightarrow> (\<exists>t. s = w @ t)"
proof (induction w s rule: starts_with.induct)
  case (1 s) then show ?case by simp
next
  case (2 a w) then show ?case by simp
next
  case (3 a w b s) then show ?case by auto
qed

lemma contains_iff: "contains s w \<longleftrightarrow> (\<exists>a b. s = a @ w @ b)"
proof (induction s)
  case Nil
  then show ?case by (auto simp: starts_with_iff)
next
  case (Cons c s)
  show ?case
  proof
    assume "contains (c # s) w"
    then consider "starts_with w (c # s)" | "contains s w" by auto
    then show "\<exists>a b. c # s = a @ w @ b"
    proof cases
      case 1
      then obtain t where "c # s = w @ t" by (auto simp: starts_with_iff)
      then have "c # s = [] @ w @ t" by simp
      then show ?thesis by blast
    next
      case 2
      then obtain a b where "s = a @ w @ b" using Cons.IH by blast
      then have "c # s = (c # a) @ w @ b" by simp
      then show ?thesis by blast
    qed
  next
    assume "\<exists>a b. c # s = a @ w @ b"
    then obtain a b where ab: "c # s = a @ w @ b" by blast
    show "contains (c # s) w"
    proof (cases a)
      case Nil
      with ab have "starts_with w (c # s)" by (auto simp: starts_with_iff)
      then show ?thesis by simp
    next
      case (Cons x a')
      with ab have "s = a' @ w @ b" by simp
      then have "contains s w" using Cons.IH by blast
      then show ?thesis by simp
    qed
  qed
qed

lemma contains_suffix_part: "contains s (u @ w) \<Longrightarrow> contains s w"
proof -
  assume "contains s (u @ w)"
  then obtain a b where "s = a @ (u @ w) @ b" by (auto simp: contains_iff)
  then have "s = (a @ u) @ w @ b" by simp
  then show ?thesis unfolding contains_iff by blast
qed

section \<open>What the extraction and \<open>process\<close> return\<close>

text \<open>
  The extraction and \<open>process\<close> return unless the extraction of the limit raises, and
  what they return is made of the results of the single extractors.
\<close>

lemma extract_entities_Inr:
  assumes "extract_entities set_list q = Inr e"
  shows "genres e = extract_genres set_list (strip (lower q))"
        "price_range e = extract_price_range (strip (lower q))"
        "rating_range e = extract_rating_range (strip (lower q))"
        "stores e = extract_stores (strip (lower q))"
        "format e = extract_format (strip (lower q))"
        "availability e = extract_availability (strip (lower q))"
        "extract_limit (strip (lower q)) = Inr (limit e)"
  using assms by (auto simp: extract_entities_def Let_def split: sum.splits)

lemma extract_entities_returns:
  assumes "extract_limit (strip (lower q)) = Inr n"
  shows "\<exists>e. extract_entities set_list q = Inr e"
  using assms by (simp add: extract_entities_def Let_def)


lemma process_Inr:
  assumes "process set_list q = Inr pq"
  shows "intent pq = fst (classify q)" "confidence pq = snd (classify q)"
        "original_query pq = q"
        "extract_entities set_list q = Inr (entities pq)"
        "filters pq = build_filters (entities pq)"
  using assms by (auto simp: process_def Let_def split: prod.splits sum.splits)

lemma process_returns:
  assumes "extract_entities set_list q = Inr e"
  shows "\<exists>pq. process set_list q = Inr pq"
  using assms by (simp add: process_def Let_def split: prod.splits)


section \<open>Availability (claim C7)\<close>

text \<open>
  The phrase \<open>unavailable\<close> contains \<open>available\<close>, and the affirmative phrases are
  tested first: a query with \<open>unavailable\<close> in it never reaches the negative test.
\<close>

lemma unavailable_is_available:
  "contains q ''unavailable'' \<Longrightarrow> extract_availability q = Some True"
proof -
  assume "contains q ''unavailable''"
  then have "contains q (''un'' @ ''available'')" by simp
  then have "contains q ''available''" by (rule contains_suffix_part)
  then show ?thesis by (simp add: extract_availability_def any_in_def)
qed

lemma unavailable_limit: "extract_limit (strip (lower ''Show me unavailable books'')) = Inr None"
  by code_simp

lemma unavailable_lower: "extract_availability (strip (lower ''Show me unavailable books'')) = Some True"
  by code_simp

text \<open>
  Claim C7: the availability extractor returns true when an "in stock"/"available"
  phrase is present, false when an "out of stock"/"unavailable" phrase is present and
  null otherwise; in particular a query with "unavailable" yields false. The code
  answers true on such a query, both in the extractor and in the entities that the whole
  extraction returns.
\<close>

theorem extract_availability_unavailable:
  "extract_availability ''unavailable books'' = Some True \<and>
   (\<exists>e. extract_entities set_list ''Show me unavailable books'' = Inr e \<and>
        availability e = Some True)"
proof -
  have "extract_availability ''unavailable books'' = Some True" by code_simp
  moreover from extract_entities_returns[OF unavailable_limit] obtain e where
    e: "extract_entities set_list ''Show me unavailable books'' = Inr e" by blast
  moreover from extract_entities_Inr(6)[OF e] have "availability e = Some True"
    by (simp only: unavailable_lower)
  ultimately show ?thesis by blast
qed

section \<open>Unknown fallback of the classifier (claim C5)\<close>

lemma Max_insert2:
  fixes a c :: rat
  assumes "finite S"
  shows "Max (insert a (insert c S)) = Max (insert (max a c) S)"
proof (cases "S = {}")
  case True
  then show ?thesis by simp
next
  case False
  with assms show ?thesis by (simp add: max.assoc)
qed

lemma max_by_score_snd: "snd (max_by_score b xs) = Max (insert (snd b) (snd ` set xs))"
proof (induction xs arbitrary: b)
  case Nil
  then show ?case by simp
next
  case (Cons x xs)
  have "snd (if snd b < snd x then x else b) = max (snd b) (snd x)"
    by (simp add: max_def)
  then have "snd (max_by_score b (x # xs)) = Max (insert (max (snd b) (snd x)) (snd ` set xs))"
    using Cons.IH[of "if snd b < snd x then x else b"] by simp
  also have "\<dots> = Max (insert (snd b) (insert (snd x) (snd ` set xs)))"
    by (rule Max_insert2[symmetric]) simp
  finally show ?case by simp
qed

lemma intent_scores_keys: "map fst (intent_scores q) = all_intents"
  by (simp add: intent_scores_def intent_patterns_def all_intents_def)

lemma intent_scores_nonempty: "intent_scores q \<noteq> []"
  using intent_scores_keys[of q] by (auto simp: all_intents_def)

text \<open>
  Claim C5: for every query, if the maximum of the per-intent scores is strictly below
  0.3, then \<open>classify\<close> returns the intent \<open>UNKNOWN\<close>, and the confidence it returns
  is that maximum.
\<close>

theorem classify_unknown_fallback:
  assumes "Max (snd ` set (intent_scores (strip (lower q)))) < 3 / 10"
  shows "classify q = (UNKNOWN, Max (snd ` set (intent_scores (strip (lower q)))))"
proof -
  let ?scores = "intent_scores (strip (lower q))"
  have ne: "?scores \<noteq> []" by (rule intent_scores_nonempty)
  then have "insert (snd (hd ?scores)) (snd ` set (tl ?scores)) = snd ` set ?scores"
    by (cases ?scores) auto
  then have "snd (max_by_score (hd ?scores) (tl ?scores)) = Max (snd ` set ?scores)"
    by (simp add: max_by_score_snd)
  with assms show ?thesis by (simp add: classify_def Let_def)
qed

text \<open>The hypothesis holds for a query without any cue; its confidence is 0.\<close>

theorem classify_unknown_fallback_witness:
  "Max (snd ` set (intent_scores (strip (lower ''Hello world'')))) < 3 / 10 \<and>
   classify ''Hello world'' = (UNKNOWN, 0)"
proof -
  have v: "Max (snd ` set (intent_scores (strip (lower ''Hello world'')))) = 0"
    by code_simp
  then have h: "Max (snd ` set (intent_scores (strip (lower ''Hello world'')))) < 3 / 10"
    by simp
  from classify_unknown_fallback[OF h] v h show ?thesis by simp
qed

section \<open>Filter whitelist (claim C6)\<close>

lemma set_op_keys: "fst ` set (set_op key op v fs) = insert key (fst ` set fs)"
  by (simp add: set_op_def dom_update)

lemma range_filters_keys: "fst ` set (range_filters key r fs) \<subseteq> insert key (fst ` set fs)"
  by (auto simp: range_filters_def set_op_keys Let_def split: option.splits)

lemma list_filter_keys: "fst ` set (list_filter key xs fs) \<subseteq> insert key (fst ` set fs)"
  by (auto simp: list_filter_def dom_update)

lemma build_filters_keys:
  "fst ` set (build_filters e) \<subseteq>
     {''price'', ''rating'', ''store_id'', ''format_type'', ''availability'', ''genre''}"
proof -
  let ?W = "{''price'', ''rating'', ''store_id'', ''format_type'', ''availability'', ''genre''}"
  define f1 where "f1 = range_filters ''price'' (price_range e) []"
  define f2 where "f2 = range_filters ''rating'' (rating_range e) f1"
  define f3 where "f3 = list_filter ''store_id'' (stores e) f2"
  define f4 where "f4 = (case format e of
                  Some f \<Rightarrow> if f = [] then f3 else AList.update ''format_type'' (Str f) f3
                | None \<Rightarrow> f3)"
  define f5 where "f5 = (case availability e of
                  Some a \<Rightarrow> AList.update ''availability'' (Bool a) f4
                | None \<Rightarrow> f4)"
  have k1: "fst ` set f1 \<subseteq> ?W"
    using range_filters_keys[of "''price''" "price_range e" "[]"] unfolding f1_def by auto
  have k2: "fst ` set f2 \<subseteq> ?W"
    using range_filters_keys[of "''rating''" "rating_range e" f1] k1 unfolding f2_def by auto
  have k3: "fst ` set f3 \<subseteq> ?W"
    using list_filter_keys[of "''store_id''" "stores e" f2] k2 unfolding f3_def by auto
  have k4: "fst ` set f4 \<subseteq> ?W"
    using k3 unfolding f4_def by (auto simp: dom_update split: option.splits)
  have k5: "fst ` set f5 \<subseteq> ?W"
    using k4 unfolding f5_def by (auto simp: dom_update split: option.splits)
  have "build_filters e = list_filter ''genre'' (genres e) f5"
    unfolding build_filters_def Let_def f1_def f2_def f3_def f4_def f5_def by (rule refl)
  then show ?thesis
    using list_filter_keys[of "''genre''" "genres e" f5] k5 by auto
qed

text \<open>
  Claim C6: for every query string, every key of the filters of \<open>process\<close> is one of
  price, rating, store_id, format_type, availability, genre. \<open>_build_filters\<close> writes
  no other key, whatever the entities; so the filters of every parsed query that
  \<open>process\<close> returns have no other key, whatever order the conversion of the set of
  genres takes.
\<close>

theorem filters_whitelist:
  "fst ` set (build_filters e) \<subseteq>
     {''price'', ''rating'', ''store_id'', ''format_type'', ''availability'', ''genre''} \<and>
   (process set_list q = Inr pq \<longrightarrow>
      fst ` set (filters pq) \<subseteq>
        {''price'', ''rating'', ''store_id'', ''format_type'', ''availability'', ''genre''})"
proof -
  have "fst ` set (filters pq) \<subseteq>
        {''price'', ''rating'', ''store_id'', ''format_type'', ''availability'', ''genre''}"
    if "process set_list q = Inr pq"
    using process_Inr(5)[OF that] by (simp only: build_filters_keys)
  then show ?thesis using build_filters_keys[of e] by blast
qed

text \<open>A query with a price bound, a genre and a limit.\<close>

lemma top5_limit:
  "extract_limit (strip (lower ''Show me the top 5 cheapest fantasy books under $20'')) = Inr (Some 5)"
  by code_simp

theorem filters_whitelist_witness:
  "\<exists>pq. process remdups ''Show me the top 5 cheapest fantasy books under $20'' = Inr pq \<and>
        limit (entities pq) = Some 5 \<and>
        fst ` set (filters pq) \<subseteq>
          {''price'', ''rating'', ''store_id'', ''format_type'', ''availability'', ''genre''}"
proof -
  let ?q = "''Show me the top 5 cheapest fantasy books under $20''"
  from extract_entities_returns[OF top5_limit] obtain e where
    "extract_entities remdups ?q = Inr e" by blast
  from process_returns[OF this] obtain pq where pq: "process remdups ?q = Inr pq" by blast
  from extract_entities_Inr(7)[OF process_Inr(4)[OF pq]] have "limit (entities pq) = Some 5"
    by (simp add: top5_limit)
  with pq filters_whitelist[of _ remdups ?q pq] show ?thesis by blast
qed

section \<open>The scenario "Find science fiction books under $20" (claim C1)\<close>

lemma set_order_single:
  assumes "set_order set_list"
  shows "set_list [x] = [x]"
proof -
  from assms have d: "distinct (set_list [x])" and s: "set (set_list [x]) = {x}"
    by (simp_all add: set_order_def)
  show ?thesis
  proof (cases "set_list [x]")
    case Nil
    with s show ?thesis by simp
  next
    case (Cons y ys)
    with s have y: "y = x" by auto
    have "ys = []"
    proof (cases ys)
      case Nil then show ?thesis .
    next
      case (Cons z zs)
      with \<open>set_list [x] = y # ys\<close> s have "z = x" by auto
      with Cons \<open>set_list [x] = y # ys\<close> y d show ?thesis by simp
    qed
    with Cons y show ?thesis by simp
  qed
qed

lemma set_order_remdups: "set_order remdups"
  by (simp add: set_order_def)

lemma under20_classify: "classify ''Find science fiction books under $20'' = (FILTER, 4 / 5)"
  by code_simp

lemma under20_found_genres:
  "found_genres (strip (lower ''Find science fiction books under $20'')) = [''science fiction'']"
  by code_simp

lemma under20_price:
  "extract_price_range (strip (lower ''Find science fiction books under $20''))
     = Some \<lparr>bmin = None, bmax = Some 20\<rparr>"
  by code_simp

lemma under20_others:
  "extract_rating_range (strip (lower ''Find science fiction books under $20'')) = None \<and>
   extract_stores (strip (lower ''Find science fiction books under $20'')) = [] \<and>
   extract_format (strip (lower ''Find science fiction books under $20'')) = None \<and>
   extract_availability (strip (lower ''Find science fiction books under $20'')) = None"
  by code_simp

lemma under20_limit:
  "extract_limit (strip (lower ''Find science fiction books under $20'')) = Inr None"
  by code_simp

text \<open>
  Claim C1, as the code has it: for the query "Find science fiction books under $20"
  the intent is \<open>FILTER\<close> (the keyword "under" and the pattern "under $20" score 0.8,
  the keyword "find" scores 0.3 for \<open>SEARCH\<close>); the genres are ["science fiction"],
  the price range is {max: 20.0}, and the filters are genre equal to "science fiction"
  and price at most 20.0.
\<close>

theorem find_under20_is_filter:
  assumes "set_order set_list"
  shows "\<exists>pq. process set_list ''Find science fiction books under $20'' = Inr pq \<and>
           intent pq = FILTER \<and>
           genres (entities pq) = [''science fiction''] \<and>
           price_range (entities pq) = Some \<lparr>bmin = None, bmax = Some 20\<rparr> \<and>
           filters pq = [(''price'', Ops [(''$lte'', 20)]), (''genre'', Str ''science fiction'')]"
proof -
  let ?q = "''Find science fiction books under $20''"
  from extract_entities_returns[OF under20_limit] obtain e where
    "extract_entities set_list ?q = Inr e" by blast
  from process_returns[OF this] obtain pq where pq: "process set_list ?q = Inr pq" by blast
  note e = extract_entities_Inr[OF process_Inr(4)[OF pq]]
  have i: "intent pq = FILTER" using process_Inr(1)[OF pq] by (simp add: under20_classify)
  have g: "genres (entities pq) = [''science fiction'']"
    using set_order_single[OF assms] e(1)
    by (simp add: extract_genres_def under20_found_genres)
  have p: "price_range (entities pq) = Some \<lparr>bmin = None, bmax = Some 20\<rparr>"
    using e(2) by (simp add: under20_price)
  have o: "rating_range (entities pq) = None" "stores (entities pq) = []"
          "format (entities pq) = None" "availability (entities pq) = None"
    using under20_others e(3,4,5,6) by simp_all
  have "build_filters (entities pq)
          = [(''price'', Ops [(''$lte'', 20)]), (''genre'', Str ''science fiction'')]"
    unfolding build_filters_def Let_def g p o
    by (simp add: range_filters_def list_filter_def set_op_def)
  then have f: "filters pq = [(''price'', Ops [(''$lte'', 20)]), (''genre'', Str ''science fiction'')]"
    using process_Inr(5)[OF pq] by simp
  from pq i g p f show ?thesis by blast
qed

text \<open>The conversion that keeps the order of first occurrence is one such order.\<close>

theorem find_under20_is_filter_witness:
  "set_order remdups \<and>
   (\<exists>pq. process remdups ''Find science fiction books under $20'' = Inr pq \<and>
         intent pq = FILTER \<and>
         genres (entities pq) = [''science fiction''] \<and>
         price_range (entities pq) = Some \<lparr>bmin = None, bmax = Some 20\<rparr> \<and>
         filters pq = [(''price'', Ops [(''$lte'', 20)]), (''genre'', Str ''science fiction'')])"
  using find_under20_is_filter[OF set_order_remdups] set_order_remdups by blast

text \<open>Claim C1 as stated says the intent is \<open>SEARCH\<close>; it is not, whatever the set order.\<close>

theorem find_under20_not_search:
  "\<forall>set_list. \<exists>pq. process set_list ''Find science fiction books under $20'' = Inr pq \<and>
                    intent pq \<noteq> SEARCH"
proof
  fix set_list :: "string list \<Rightarrow> string list"
  let ?q = "''Find science fiction books under $20''"
  from extract_entities_returns[OF under20_limit] obtain e where
    "extract_entities set_list ?q = Inr e" by blast
  from process_returns[OF this] obtain pq where pq: "process set_list ?q = Inr pq" by blast
  have "intent pq \<noteq> SEARCH" using process_Inr(1)[OF pq] by (simp add: under20_classify)
  with pq show "\<exists>pq. process set_list ?q = Inr pq \<and> intent pq \<noteq> SEARCH" by blast
qed

section \<open>One store mentioned, two stores extracted (claim C8)\<close>

text \<open>
  Both store patterns match the word "bookstore", and each match appends the store: a
  query that names one store as "bookstore a" yields the same store twice.
\<close>

lemma bookstore_a_stores: "extract_stores (strip (lower ''Books at bookstore A'')) = [''store_a'', ''store_a'']"
  by code_simp

lemma bookstore_a_others:
  "extract_price_range (strip (lower ''Books at bookstore A'')) = None \<and>
   extract_rating_range (strip (lower ''Books at bookstore A'')) = None \<and>
   extract_format (strip (lower ''Books at bookstore A'')) = None \<and>
   extract_availability (strip (lower ''Books at bookstore A'')) = None \<and>
   extract_limit (strip (lower ''Books at bookstore A'')) = Inr None"
  by code_simp

text \<open>
  Claim C8: a query that mentions exactly one store (for example "bookstore a") gets an
  equality constraint on store_id, and a set-membership constraint only when several
  distinct stores were extracted. On "Books at bookstore A" the code extracts
  \<open>store_a\<close> twice and builds a set-membership constraint.
\<close>

theorem single_store_gets_set_membership:
  "\<exists>pq. process set_list ''Books at bookstore A'' = Inr pq \<and>
        stores (entities pq) = [''store_a'', ''store_a''] \<and>
        map_of (filters pq) ''store_id'' = Some (In_list [''store_a'', ''store_a''])"
proof -
  let ?q = "''Books at bookstore A''"
  from bookstore_a_others have "extract_limit (strip (lower ?q)) = Inr None" by blast
  from extract_entities_returns[OF this] obtain e where
    "extract_entities set_list ?q = Inr e" by blast
  from process_returns[OF this] obtain pq where pq: "process set_list ?q = Inr pq" by blast
  note e = extract_entities_Inr[OF process_Inr(4)[OF pq]]
  have s: "stores (entities pq) = [''store_a'', ''store_a'']"
    using e(4) by (simp add: bookstore_a_stores)
  have o: "price_range (entities pq) = None" "rating_range (entities pq) = None"
          "format (entities pq) = None" "availability (entities pq) = None"
    using bookstore_a_others e(2,3,5,6) by simp_all
  have "map_of (build_filters (entities pq)) ''store_id''
          = Some (In_list [''store_a'', ''store_a''])"
    unfolding build_filters_def Let_def s o
    by (simp add: range_filters_def list_filter_def update_conv')
  then have "map_of (filters pq) ''store_id'' = Some (In_list [''store_a'', ''store_a''])"
    using process_Inr(5)[OF pq] by simp
  with pq s show ?thesis by blast
qed

section \<open>Median of the price statistics (claim C9)\<close>

lemma calculate_price_stats_median:
  assumes "books \<noteq> []"
  shows "\<exists>ps. calculate_price_stats books = Inr ps \<and>
           price_median ps = sort (map (\<lambda>b. price (item_metadata b)) books) ! (length books div 2)"
  using assms by (cases books) (simp_all add: calculate_price_stats_def)

text \<open>
  Claim C9, as the code has it: for every non-empty list of books the median of the
  price statistics is the element at index \<open>len // 2\<close> of the ascending-sorted prices;
  that index is inside the list, it is the middle element when the count is odd and
  the upper of the two middle elements when the count is even.
\<close>

theorem median_is_upper_middle:
  assumes "books \<noteq> []"
  shows "\<exists>ps. calculate_price_stats books = Inr ps \<and>
           price_median ps = sort (map (\<lambda>b. price (item_metadata b)) books) ! (length books div 2) \<and>
           length books div 2 < length (sort (map (\<lambda>b. price (item_metadata b)) books)) \<and>
           (if even (length books) then length books div 2 = (length books - 1) div 2 + 1
            else length books div 2 = (length books - 1) div 2)"
proof -
  from assms have pos: "0 < length books" by simp
  from calculate_price_stats_median[OF assms] obtain ps where
    ps: "calculate_price_stats books = Inr ps"
        "price_median ps = sort (map (\<lambda>b. price (item_metadata b)) books) ! (length books div 2)"
    by blast
  have "length books div 2 < length (sort (map (\<lambda>b. price (item_metadata b)) books))"
    using pos by simp
  moreover have "even (length books) \<Longrightarrow> length books div 2 = (length books - 1) div 2 + 1"
    using pos by presburger
  moreover have "odd (length books) \<Longrightarrow> length books div 2 = (length books - 1) div 2"
    by presburger
  ultimately show ?thesis using ps by auto
qed

text \<open>Four books priced 4, 1, 3, 2: the median reported is 3.\<close>

lemma four_books_stats:
  "calculate_price_stats
     [sample_book ''a'' ''x'' ''g'' 4 None ''s'', sample_book ''b'' ''x'' ''g'' 1 None ''s'',
      sample_book ''c'' ''x'' ''g'' 3 None ''s'', sample_book ''d'' ''x'' ''g'' 2 None ''s'']
   = Inr \<lparr>price_average = 5 / 2, price_min = 1, price_max = 4, price_median = 3\<rparr>"
  by code_simp

lemma four_books_sorted:
  "sort (map (\<lambda>b. price (item_metadata b))
     [sample_book ''a'' ''x'' ''g'' 4 None ''s'', sample_book ''b'' ''x'' ''g'' 1 None ''s'',
      sample_book ''c'' ''x'' ''g'' 3 None ''s'', sample_book ''d'' ''x'' ''g'' 2 None ''s''])
   = [1, 2, 3, 4]"
  by code_simp

theorem median_is_upper_middle_witness:
  "[sample_book ''a'' ''x'' ''g'' 4 None ''s'', sample_book ''b'' ''x'' ''g'' 1 None ''s'',
    sample_book ''c'' ''x'' ''g'' 3 None ''s'', sample_book ''d'' ''x'' ''g'' 2 None ''s''] \<noteq> [] \<and>
   (\<exists>ps. calculate_price_stats
     [sample_book ''a'' ''x'' ''g'' 4 None ''s'', sample_book ''b'' ''x'' ''g'' 1 None ''s'',
      sample_book ''c'' ''x'' ''g'' 3 None ''s'', sample_book ''d'' ''x'' ''g'' 2 None ''s'']
       = Inr ps \<and> price_median ps = 3)"
proof -
  let ?books = "[sample_book ''a'' ''x'' ''g'' 4 None ''s'', sample_book ''b'' ''x'' ''g'' 1 None ''s'',
      sample_book ''c'' ''x'' ''g'' 3 None ''s'', sample_book ''d'' ''x'' ''g'' 2 None ''s'']"
  have ne: "?books \<noteq> []" by simp
  from median_is_upper_middle[OF ne] obtain ps where
    "calculate_price_stats ?books = Inr ps"
    "price_median ps = sort (map (\<lambda>b. price (item_metadata b)) ?books) ! (length ?books div 2)"
    by blast
  then have "calculate_price_stats ?books = Inr ps \<and> price_median ps = 3"
    by (simp only: four_books_sorted) simp
  then show ?thesis using ne by blast
qed

text \<open>
  Claim C9 as stated takes the lower of the two middle elements on an even count; on the
  four books above that is 2.
\<close>

theorem median_lower_middle_counterexample:
  "\<not> (\<forall>books. books \<noteq> [] \<and> even (length books) \<longrightarrow>
        (\<exists>ps. calculate_price_stats books = Inr ps \<and>
              price_median ps =
                sort (map (\<lambda>b. price (item_metadata b)) books) ! (length books div 2 - 1)))"
proof
  let ?books = "[sample_book ''a'' ''x'' ''g'' 4 None ''s'', sample_book ''b'' ''x'' ''g'' 1 None ''s'',
      sample_book ''c'' ''x'' ''g'' 3 None ''s'', sample_book ''d'' ''x'' ''g'' 2 None ''s'']"
  assume "\<forall>books. books \<noteq> [] \<and> even (length books) \<longrightarrow>
        (\<exists>ps. calculate_price_stats books = Inr ps \<and>
              price_median ps =
                sort (map (\<lambda>b. price (item_metadata b)) books) ! (length books div 2 - 1))"
  moreover have "?books \<noteq> [] \<and> even (length ?books)" by simp
  ultimately obtain ps where "calculate_price_stats ?books = Inr ps"
     and m: "price_median ps = sort (map (\<lambda>b. price (item_metadata b)) ?books) ! (length ?books div 2 - 1)"
    by blast
  with four_books_stats have "price_median ps = 3" by simp
  moreover have "sort (map (\<lambda>b. price (item_metadata b)) ?books) ! (length ?books div 2 - 1) = 2"
    by (simp only: four_books_sorted) simp
  ultimately show False using m by simp
qed

section \<open>Ratings that enter the statistics (claim C10)\<close>

lemma truthy_iff: "truthy r \<longleftrightarrow> r \<noteq> None \<and> r \<noteq> Some 0"
  by (cases r) (simp_all add: truthy_def)

lemma analytics_ratings_rated: "analytics_ratings books = rated books"
  by (induction books) (auto simp: analytics_ratings_def rated_def truthy_iff)

lemma comparison_ratings_rated: "comparison_ratings books = rated books"
  by (induction books) (auto simp: comparison_ratings_def rated_def truthy_iff)

lemma fold_min_Min: "fold min xs (x::rat) = Min (set (x # xs))"
  by (simp only: Min.set_eq_fold)

lemma fold_max_Max: "fold max xs (x::rat) = Max (set (x # xs))"
  by (simp only: Max.set_eq_fold)

text \<open>
  Claim C10, as the code has it: in the Analytics statistics and in the per-store entry
  of the Comparison, mean, min, max and count of the ratings are taken over exactly the
  items whose rating is neither null nor zero (\<open>rated\<close>); the statistic is null exactly
  when every item has a null or a zero rating.
\<close>

theorem rating_stats_skip_zero:
  "calculate_rating_stats books =
     (if rated books = []
      then \<lparr>rating_average = None, rating_min = None, rating_max = None, rating_count = None\<rparr>
      else \<lparr>rating_average = Some (sum_list (rated books) / of_nat (length (rated books))),
            rating_min = Some (Min (set (rated books))),
            rating_max = Some (Max (set (rated books))),
            rating_count = Some (length (rated books))\<rparr>) \<and>
   (case store_entry books of
      None \<Rightarrow> books = []
    | Some s \<Rightarrow>
        avg_rating s =
          (if rated books = [] then None
           else Some (sum_list (rated books) / of_nat (length (rated books))))) \<and>
   (rated books = [] \<longleftrightarrow>
      (\<forall>b \<in> set books. rating (item_metadata b) = None \<or> rating (item_metadata b) = Some 0))"
proof -
  have a: "calculate_rating_stats books =
     (if rated books = []
      then \<lparr>rating_average = None, rating_min = None, rating_max = None, rating_count = None\<rparr>
      else \<lparr>rating_average = Some (sum_list (rated books) / of_nat (length (rated books))),
            rating_min = Some (Min (set (rated books))),
            rating_max = Some (Max (set (rated books))),
            rating_count = Some (length (rated books))\<rparr>)"
  proof (cases "rated books")
    case Nil
    then show ?thesis by (simp add: calculate_rating_stats_def analytics_ratings_rated)
  next
    case (Cons r rs)
    then show ?thesis
      by (simp add: calculate_rating_stats_def analytics_ratings_rated fold_min_Min fold_max_Max Let_def
               del: Min_insert Max_insert set_simps)
  qed
  have b: "(case store_entry books of
      None \<Rightarrow> books = []
    | Some s \<Rightarrow>
        avg_rating s =
          (if rated books = [] then None
           else Some (sum_list (rated books) / of_nat (length (rated books)))))"
    by (cases books) (simp_all add: store_entry_def Let_def comparison_ratings_rated)
  have c: "(rated books = [] \<longleftrightarrow>
      (\<forall>b \<in> set books. rating (item_metadata b) = None \<or> rating (item_metadata b) = Some 0))"
    by (auto simp: rated_def filter_empty_conv)
  from a b c show ?thesis by blast
qed

text \<open>Ratings 0, 4, null, 5: the statistics are those of 4 and 5.\<close>

lemma rated_example:
  "rated [sample_book ''a'' ''x'' ''g'' 4 (Some 0) ''s'', sample_book ''b'' ''x'' ''g'' 1 (Some 4) ''s'',
          sample_book ''c'' ''x'' ''g'' 3 None ''s'', sample_book ''d'' ''x'' ''g'' 2 (Some 5) ''s'']
   = [4, 5]"
  by code_simp

theorem rating_stats_skip_zero_witness:
  "calculate_rating_stats
     [sample_book ''a'' ''x'' ''g'' 4 (Some 0) ''s'', sample_book ''b'' ''x'' ''g'' 1 (Some 4) ''s'',
      sample_book ''c'' ''x'' ''g'' 3 None ''s'', sample_book ''d'' ''x'' ''g'' 2 (Some 5) ''s'']
   = \<lparr>rating_average = Some (9 / 2), rating_min = Some 4, rating_max = Some 5,
      rating_count = Some 2\<rparr>"
  using rating_stats_skip_zero[of
     "[sample_book ''a'' ''x'' ''g'' 4 (Some 0) ''s'', sample_book ''b'' ''x'' ''g'' 1 (Some 4) ''s'',
      sample_book ''c'' ''x'' ''g'' 3 None ''s'', sample_book ''d'' ''x'' ''g'' 2 (Some 5) ''s'']"]
  by (simp only: rated_example) simp

text \<open>
  Claim C10 as stated includes an item rated 0 and has a null statistic only when no
  item has a non-null rating; a single book rated 0 gives a null statistic in both
  strategies.
\<close>

theorem zero_rating_counterexample:
  "\<not> (\<forall>books. rating_average (calculate_rating_stats books) = None \<longrightarrow>
               (\<forall>b \<in> set books. rating (item_metadata b) = None)) \<and>
   \<not> (\<forall>books s. store_entry books = Some s \<and> avg_rating s = None \<longrightarrow>
               (\<forall>b \<in> set books. rating (item_metadata b) = None))"
proof -
  let ?b = "sample_book ''a'' ''x'' ''g'' 4 (Some 0) ''s''"
  have 1: "rating_average (calculate_rating_stats [?b]) = None" by code_simp
  have 2: "store_entry [?b] = Some \<lparr>stats_store_name = ''s'', book_count = 1, avg_price = 4,
             min_price = 4, max_price = 4, avg_rating = None, sample_books = [?b]\<rparr>"
    by code_simp
  have 3: "rating (item_metadata ?b) = Some 0" by (simp add: sample_book_def)
  have "\<not> (\<forall>books. rating_average (calculate_rating_stats books) = None \<longrightarrow>
               (\<forall>b \<in> set books. rating (item_metadata b) = None))"
  proof
    assume "\<forall>books. rating_average (calculate_rating_stats books) = None \<longrightarrow>
               (\<forall>b \<in> set books. rating (item_metadata b) = None)"
    with 1 have "\<forall>b \<in> set [?b]. rating (item_metadata b) = None" by blast
    with 3 show False by simp
  qed
  moreover have "\<not> (\<forall>books s. store_entry books = Some s \<and> avg_rating s = None \<longrightarrow>
               (\<forall>b \<in> set books. rating (item_metadata b) = None))"
  proof
    assume "\<forall>books s. store_entry books = Some s \<and> avg_rating s = None \<longrightarrow>
               (\<forall>b \<in> set books. rating (item_metadata b) = None)"
    with 2 have "\<forall>b \<in> set [?b]. rating (item_metadata b) = None" by fastforce
    with 3 show False by simp
  qed
  ultimately show ?thesis by blast
qed

section \<open>The search call of the Comparison strategy (claim C3)\<close>

text \<open>
  Claim C3: for every parsed query, also one whose filters hold a store_id constraint,
  the Comparison strategy makes a single call to the search collaborator; the call asks
  for 50 results and carries the empty filter dictionary, so no store filter.
\<close>

theorem comparison_call_no_store_filter:
  "calls (snd (retrieve_for_comparison ix pq)) =
     calls ix @ [\<lparr>call_query = build_search_text pq, call_n_results = 50, call_filters = []\<rparr>] \<and>
   map_of (call_filters (last (calls (snd (retrieve_for_comparison ix pq))))) ''store_id'' = None"
  by (simp add: retrieve_for_comparison_def search_books_def Let_def split: sum.splits)

section \<open>The envelope of the router (claim C4)\<close>

text \<open>
  \<open>route\<close> calls \<open>process\<close> before its \<open>try\<close>, and \<open>int\<close> refuses a string of more
  than 4300 digits: on a query such as "top" followed by that many digits, the
  extraction of the limit raises \<open>ValueError\<close>, and so do \<open>process\<close> and \<open>route\<close>.
\<close>

lemma plus_rests_other:
  assumes "\<not> in_class k c"
  shows "plus_rests k (replicate n c @ s) = (if n = 0 then plus_rests k s else [])"
  using assms by (cases n) simp_all
























section \<open>Diversification of recommendations (claim C2)\<close>















end
